theory Spec2Isabelle
  imports Main "HOL-Library.Word" "HOL-Library.Multiset"
begin

section \<open>Python values, errors and generators\<close>

text \<open>
  The parser of \<^verbatim>\<open>file_parser.py\<close> works on byte buffers (an \<^verbatim>\<open>mmap\<close>, a
  \<^verbatim>\<open>memoryview\<close>, \<^verbatim>\<open>bytes\<close>) and on the tuples its generators yield. Python is
  dynamically typed and the code passes tuples where buffers are expected, so both kinds of
  value live in one type. Offsets and lengths are Python integers that never go negative
  here; they are natural numbers.
\<close>

type_synonym byte = "8 word"

datatype pyval = Bytes "byte list" | Tuple "pyval list"

datatype py_error =
    AttributeError
  | TypeError
  | StructError
  | ValueError
  | OSError
  | BadGzipFile
  | DecodeError
  | WriteError

text \<open>\<^verbatim>\<open>len(v)\<close>: the number of bytes of a buffer, the number of items of a tuple.\<close>

fun py_len :: "pyval \<Rightarrow> nat" where
  "py_len (Bytes bs) = length bs"
| "py_len (Tuple vs) = length vs"

text \<open>
  \<^verbatim>\<open>v[i:j]\<close> for non-negative \<open>i\<close> and \<open>j\<close>: Python clips both bounds to the
  length, so a slice never raises and may be shorter than \<open>j - i\<close>.
\<close>

definition slice :: "'a list \<Rightarrow> nat \<Rightarrow> nat \<Rightarrow> 'a list" where
  "slice xs i j = take (j - i) (drop i xs)"

fun py_slice :: "pyval \<Rightarrow> nat \<Rightarrow> nat \<Rightarrow> pyval" where
  "py_slice (Bytes bs) i j = Bytes (slice bs i j)"
| "py_slice (Tuple vs) i j = Tuple (slice vs i j)"

text \<open>
  \<^verbatim>\<open>v.encode("ascii")\<close>: \<^verbatim>\<open>encode\<close> is a method of \<^verbatim>\<open>str\<close> only. Neither a
  \<^verbatim>\<open>memoryview\<close>, nor \<^verbatim>\<open>bytes\<close>, nor a tuple has it, so the attribute lookup raises
  \<^verbatim>\<open>AttributeError\<close> for every value of this model.
\<close>

fun py_encode_ascii :: "pyval \<Rightarrow> py_error + pyval" where
  "py_encode_ascii (Bytes bs) = Inl AttributeError"
| "py_encode_ascii (Tuple vs) = Inl AttributeError"

text \<open>\<^verbatim>\<open>v.tobytes()\<close>: a method of \<^verbatim>\<open>memoryview\<close>; a tuple has none.\<close>

fun py_tobytes :: "pyval \<Rightarrow> py_error + byte list" where
  "py_tobytes (Bytes bs) = Inr bs"
| "py_tobytes (Tuple vs) = Inl AttributeError"

text \<open>The unsigned big-endian integer held in a byte string.\<close>

definition be_uint :: "byte list \<Rightarrow> nat" where
  "be_uint bs = foldl (\<lambda>acc b. acc * 256 + unat b) 0 bs"

text \<open>
  \<^verbatim>\<open>struct.unpack(">H", v)\<close> (width 2) and \<^verbatim>\<open>struct.unpack(">I", v)\<close> (width 4):
  the buffer must hold exactly the width (\<^verbatim>\<open>struct.error\<close> otherwise), and a tuple is not
  a bytes-like object (\<^verbatim>\<open>TypeError\<close>).
\<close>

fun struct_unpack_be :: "nat \<Rightarrow> pyval \<Rightarrow> py_error + nat" where
  "struct_unpack_be w (Bytes bs) = (if length bs = w then Inr (be_uint bs) else Inl StructError)"
| "struct_unpack_be w (Tuple vs) = Inl TypeError"

text \<open>
  A generator is a state machine over its local variable \<^verbatim>\<open>offset\<close>: resumed at an
  offset it yields a value and suspends at the next offset, or returns, or raises. A run of
  a generator is the list of the values it yields, with the error that ended it, if any.
\<close>

datatype 'a gen_step = Yield 'a nat | Stop | Raise py_error

type_synonym 'a gen_run = "'a list \<times> py_error option"

fun gen_cons :: "'a \<Rightarrow> 'a gen_run \<Rightarrow> 'a gen_run" where
  "gen_cons x (xs, r) = (x # xs, r)"

section \<open>The four layer decoders\<close>

text \<open>
  \<^verbatim>\<open>parse_layer1\<close>, one pass of its \<^verbatim>\<open>while\<close> loop. The decompressor
  \<^verbatim>\<open>gzip.decompress\<close> is a parameter: the bytes it returns, or the error it raises.
\<close>

definition parse_layer1_step ::
  "(byte list \<Rightarrow> py_error + byte list) \<Rightarrow> pyval \<Rightarrow> nat \<Rightarrow> (pyval \<times> pyval) gen_step" where
  "parse_layer1_step gz mm_view offset =
     (if offset + 35 \<le> py_len mm_view then
        (let header = py_slice mm_view offset (offset + 35) in
         if py_len header < 35 then Stop
         else
           (case py_encode_ascii (py_slice header 0 18) of
              Inl e \<Rightarrow> Raise e
            | Inr vid \<Rightarrow>
               (case struct_unpack_be 4 (py_slice header 31 35) of
                  Inl e \<Rightarrow> Raise e
                | Inr data_len \<Rightarrow>
                   (case py_tobytes (py_slice mm_view (offset + 35) (offset + 35 + data_len)) of
                      Inl e \<Rightarrow> Raise e
                    | Inr comp_data \<Rightarrow>
                       (case gz comp_data of
                          Inl e \<Rightarrow> Raise e
                        | Inr decompressed_data \<Rightarrow>
                            Yield (vid, Bytes decompressed_data) (offset + 35 + data_len))))))
      else Stop)"

text \<open>
  \<^verbatim>\<open>parse_layer2\<close>, \<^verbatim>\<open>parse_layer3\<close> and \<^verbatim>\<open>parse_layer4\<close> differ in the header
  size and in the place and width of the length field. Each yields the tuple
  \<^verbatim>\<open>(header, payload)\<close>.
\<close>

definition parse_layer2_step :: "pyval \<Rightarrow> nat \<Rightarrow> pyval gen_step" where
  "parse_layer2_step decompressed_data offset =
     (if offset + 16 \<le> py_len decompressed_data then
        (let header = py_slice decompressed_data offset (offset + 16) in
         if py_len header < 16 then Stop
         else
           (case struct_unpack_be 2 (py_slice header 14 16) of
              Inl e \<Rightarrow> Raise e
            | Inr data_len \<Rightarrow>
                Yield (Tuple [header, py_slice decompressed_data (offset + 16) (offset + 16 + data_len)])
                      (offset + 16 + data_len)))
      else Stop)"

definition parse_layer3_step :: "pyval \<Rightarrow> nat \<Rightarrow> pyval gen_step" where
  "parse_layer3_step frame_seqs offset =
     (if offset + 8 \<le> py_len frame_seqs then
        (let header = py_slice frame_seqs offset (offset + 8) in
         if py_len header < 8 then Stop
         else
           (case struct_unpack_be 4 (py_slice header 4 8) of
              Inl e \<Rightarrow> Raise e
            | Inr data_len \<Rightarrow>
                Yield (Tuple [header, py_slice frame_seqs (offset + 8) (offset + 8 + data_len)])
                      (offset + 8 + data_len)))
      else Stop)"

definition parse_layer4_step :: "pyval \<Rightarrow> nat \<Rightarrow> pyval gen_step" where
  "parse_layer4_step frame_seq offset =
     (if offset + 4 \<le> py_len frame_seq then
        (let header = py_slice frame_seq offset (offset + 4) in
         if py_len header < 4 then Stop
         else
           (case struct_unpack_be 2 (py_slice header 2 4) of
              Inl e \<Rightarrow> Raise e
            | Inr data_len \<Rightarrow>
                Yield (Tuple [header, py_slice frame_seq (offset + 4) (offset + 4 + data_len)])
                      (offset + 4 + data_len)))
      else Stop)"

text \<open>Every pass that yields moves the offset forward by at least the header size.\<close>

lemma parse_layer1_step_advance:
  "parse_layer1_step gz v off = Yield r off' \<Longrightarrow> off + 35 \<le> off' \<and> off + 35 \<le> py_len v"
  by (auto simp: parse_layer1_step_def Let_def split: if_splits sum.splits)

lemma parse_layer2_step_advance:
  "parse_layer2_step v off = Yield r off' \<Longrightarrow> off + 16 \<le> off' \<and> off + 16 \<le> py_len v"
  by (auto simp: parse_layer2_step_def Let_def split: if_splits sum.splits)

lemma parse_layer3_step_advance:
  "parse_layer3_step v off = Yield r off' \<Longrightarrow> off + 8 \<le> off' \<and> off + 8 \<le> py_len v"
  by (auto simp: parse_layer3_step_def Let_def split: if_splits sum.splits)

lemma parse_layer4_step_advance:
  "parse_layer4_step v off = Yield r off' \<Longrightarrow> off + 4 \<le> off' \<and> off + 4 \<le> py_len v"
  by (auto simp: parse_layer4_step_def Let_def split: if_splits sum.splits)

text \<open>
  The \<^verbatim>\<open>while\<close> loops, run from an offset until the generator returns or raises. Each
  terminates because the distance from the offset to the end of the input shrinks.
\<close>

function parse_layer1_from ::
  "(byte list \<Rightarrow> py_error + byte list) \<Rightarrow> pyval \<Rightarrow> nat \<Rightarrow> (pyval \<times> pyval) gen_run" where
  "parse_layer1_from gz v off =
     (case parse_layer1_step gz v off of
        Stop \<Rightarrow> ([], None)
      | Raise e \<Rightarrow> ([], Some e)
      | Yield r off' \<Rightarrow> gen_cons r (parse_layer1_from gz v off'))"
  by pat_completeness auto
termination
  by (relation "measure (\<lambda>(gz, v, off). py_len v - off)")
     (auto dest!: parse_layer1_step_advance)

function parse_layer2_from :: "pyval \<Rightarrow> nat \<Rightarrow> pyval gen_run" where
  "parse_layer2_from v off =
     (case parse_layer2_step v off of
        Stop \<Rightarrow> ([], None)
      | Raise e \<Rightarrow> ([], Some e)
      | Yield r off' \<Rightarrow> gen_cons r (parse_layer2_from v off'))"
  by pat_completeness auto
termination
  by (relation "measure (\<lambda>(v, off). py_len v - off)")
     (auto dest!: parse_layer2_step_advance)

function parse_layer3_from :: "pyval \<Rightarrow> nat \<Rightarrow> pyval gen_run" where
  "parse_layer3_from v off =
     (case parse_layer3_step v off of
        Stop \<Rightarrow> ([], None)
      | Raise e \<Rightarrow> ([], Some e)
      | Yield r off' \<Rightarrow> gen_cons r (parse_layer3_from v off'))"
  by pat_completeness auto
termination
  by (relation "measure (\<lambda>(v, off). py_len v - off)")
     (auto dest!: parse_layer3_step_advance)

function parse_layer4_from :: "pyval \<Rightarrow> nat \<Rightarrow> pyval gen_run" where
  "parse_layer4_from v off =
     (case parse_layer4_step v off of
        Stop \<Rightarrow> ([], None)
      | Raise e \<Rightarrow> ([], Some e)
      | Yield r off' \<Rightarrow> gen_cons r (parse_layer4_from v off'))"
  by pat_completeness auto
termination
  by (relation "measure (\<lambda>(v, off). py_len v - off)")
     (auto dest!: parse_layer4_step_advance)

declare parse_layer1_from.simps [simp del]
declare parse_layer2_from.simps [simp del]
declare parse_layer3_from.simps [simp del]
declare parse_layer4_from.simps [simp del]

text \<open>Each generator starts with \<^verbatim>\<open>offset = 0\<close>.\<close>

definition parse_layer1 ::
  "(byte list \<Rightarrow> py_error + byte list) \<Rightarrow> pyval \<Rightarrow> (pyval \<times> pyval) gen_run" where
  "parse_layer1 gz mm_view = parse_layer1_from gz mm_view 0"

definition parse_layer2 :: "pyval \<Rightarrow> pyval gen_run" where
  "parse_layer2 decompressed_data = parse_layer2_from decompressed_data 0"

definition parse_layer3 :: "pyval \<Rightarrow> pyval gen_run" where
  "parse_layer3 frame_seqs = parse_layer3_from frame_seqs 0"

definition parse_layer4 :: "pyval \<Rightarrow> pyval gen_run" where
  "parse_layer4 frame_seq = parse_layer4_from frame_seq 0"

section \<open>The frame extractor\<close>

text \<open>
  A \<^verbatim>\<open>for\<close> loop over a generator, inside a generator: the body's values are
  yielded item by item; an error of the body ends the run at once, an error of the iterated
  generator ends it after the items that generator had yielded.
\<close>

fun gen_for :: "'a list \<Rightarrow> py_error option \<Rightarrow> ('a \<Rightarrow> 'b gen_run) \<Rightarrow> 'b gen_run" where
  "gen_for [] r body = ([], r)"
| "gen_for (x # xs) r body =
     (case body x of
        (ys, Some e) \<Rightarrow> (ys, Some e)
      | (ys, None) \<Rightarrow> (case gen_for xs r body of (zs, r') \<Rightarrow> (ys @ zs, r')))"

fun for_each :: "'a gen_run \<Rightarrow> ('a \<Rightarrow> 'b gen_run) \<Rightarrow> 'b gen_run" where
  "for_each (xs, r) body = gen_for xs r body"

text \<open>
  \<^verbatim>\<open>extract_frames\<close>. The three inner loops bind their variable to the whole item a
  decoder yields, the tuple \<^verbatim>\<open>(header, payload)\<close>, and hand it to the next decoder;
  the third and the fourth loop both call \<^verbatim>\<open>parse_layer3\<close>.
\<close>

definition frames_of_segment :: "pyval \<Rightarrow> pyval \<Rightarrow> (pyval \<times> pyval) gen_run" where
  "frames_of_segment vid decompressed_data =
     for_each (parse_layer2 decompressed_data) (\<lambda>frame_seqs.
       for_each (parse_layer3 frame_seqs) (\<lambda>frame_seq.
         for_each (parse_layer3 frame_seq) (\<lambda>frame. ([(vid, frame)], None))))"

definition extract_frames ::
  "(byte list \<Rightarrow> py_error + byte list) \<Rightarrow> pyval \<Rightarrow> (pyval \<times> pyval) gen_run" where
  "extract_frames gz mm_view =
     for_each (parse_layer1 gz mm_view) (\<lambda>(vid, decompressed_data).
       frames_of_segment vid decompressed_data)"

subsection \<open>The composition the specification describes\<close>

text \<open>
  The specification's framing: a record is a header of \<open>hs\<close> bytes whose big-endian
  length field of \<open>w\<close> bytes stands at header offset \<open>lo\<close>, followed by a payload of
  the declared length; decoding ends when fewer than \<open>hs\<close> bytes remain or when the
  declared payload would exceed the span.
\<close>

function spec_records :: "nat \<Rightarrow> nat \<Rightarrow> nat \<Rightarrow> byte list \<Rightarrow> nat \<Rightarrow> (byte list \<times> byte list) list" where
  "spec_records hs lo w bs off =
     (if 0 < hs \<and> off + hs + be_uint (slice bs (off + lo) (off + lo + w)) \<le> length bs
      then (slice bs off (off + hs),
            slice bs (off + hs) (off + hs + be_uint (slice bs (off + lo) (off + lo + w))))
           # spec_records hs lo w bs (off + hs + be_uint (slice bs (off + lo) (off + lo + w)))
      else [])"
  by pat_completeness auto
termination
  by (relation "measure (\<lambda>(hs, lo, w, bs, off). length bs - off)") auto

declare spec_records.simps [simp del]

text \<open>
  The specification's layer 1: the source identifier is the first 18 bytes of the header and
  the payload is decompressed; a decompression failure ends the sequence with that error.
\<close>

fun spec_segments ::
  "(byte list \<Rightarrow> py_error + byte list) \<Rightarrow> (byte list \<times> byte list) list
     \<Rightarrow> (byte list \<times> byte list) gen_run" where
  "spec_segments gz [] = ([], None)"
| "spec_segments gz ((header, comp_data) # rs) =
     (case gz comp_data of
        Inl e \<Rightarrow> ([], Some e)
      | Inr payload \<Rightarrow> gen_cons (take 18 header, payload) (spec_segments gz rs))"

text \<open>
  The specification's frame extractor: for each L1 record, for each L2 record of its
  decompressed payload, for each L3 record of that payload, for each L4 record of that
  payload, the pair of the source identifier and the L4 payload.
\<close>

definition spec_extract_frames ::
  "(byte list \<Rightarrow> py_error + byte list) \<Rightarrow> byte list \<Rightarrow> (byte list \<times> byte list) gen_run" where
  "spec_extract_frames gz bs =
     for_each (spec_segments gz (spec_records 35 31 4 bs 0)) (\<lambda>(source_id, payload1).
       (concat (map (\<lambda>(header2, payload2).
          concat (map (\<lambda>(header3, payload3).
            map (\<lambda>(header4, payload4). (source_id, payload4)) (spec_records 4 2 2 payload3 0))
            (spec_records 8 4 4 payload2 0)))
          (spec_records 16 14 2 payload1 0)), None))"

section \<open>The file processor\<close>

text \<open>
  A path is the list of its components. \<^verbatim>\<open>relative_to\<close> raises \<^verbatim>\<open>ValueError\<close>
  unless the directory is a prefix of the path. \<^verbatim>\<open>with_suffix\<close> raises
  \<^verbatim>\<open>ValueError\<close> on a path with no name, and replaces what follows the last dot of the
  name when that dot is neither its first nor its last character.
\<close>

type_synonym path = "string list"

fun relative_to :: "path \<Rightarrow> path \<Rightarrow> py_error + path" where
  "relative_to p [] = Inr p"
| "relative_to [] (d # ds) = Inl ValueError"
| "relative_to (c # cs) (d # ds) = (if c = d then relative_to cs ds else Inl ValueError)"

fun last_dot :: "string \<Rightarrow> nat option" where
  "last_dot [] = None"
| "last_dot (c # cs) =
     (case last_dot cs of
        Some i \<Rightarrow> Some (Suc i)
      | None \<Rightarrow> if c = CHR ''.'' then Some 0 else None)"

definition stem :: "string \<Rightarrow> string" where
  "stem name =
     (case last_dot name of
        None \<Rightarrow> name
      | Some i \<Rightarrow> if 0 < i \<and> i < length name - 1 then take i name else name)"

definition with_suffix :: "path \<Rightarrow> string \<Rightarrow> py_error + path" where
  "with_suffix p suffix =
     (if p = [] \<or> last p = [] then Inl ValueError
      else Inr (butlast p @ [stem (last p) @ suffix]))"

text \<open>
  What \<^verbatim>\<open>process_file\<close> reaches outside the module: opening a file for reading (its
  bytes, or the error), \<^verbatim>\<open>gzip.decompress\<close>, the frame decoder
  \<^verbatim>\<open>dbc_parser.decode_frame\<close>, \<^verbatim>\<open>mkdir(parents=True, exist_ok=True)\<close> and the
  construction and writing of the data frame.
\<close>

record 'row ext =
  open_rb :: "path \<Rightarrow> py_error + byte list"
  gzip_decompress :: "byte list \<Rightarrow> py_error + byte list"
  decode_frame :: "pyval \<Rightarrow> pyval \<Rightarrow> py_error + 'row list"
  mkdir_parents :: "path \<Rightarrow> py_error option"
  write_parquet :: "path \<Rightarrow> 'row list \<Rightarrow> py_error option"

text \<open>The operations on resources and on the file system, in the order they happen.\<close>

datatype 'row event =
    FileOpened path
  | MmapCreated path
  | FileClosed path
  | DirsMade path
  | ParquetWritten path "'row list"
  | ViewReleased path
  | MmapClosed path

text \<open>
  \<^verbatim>\<open>mmap.mmap(fileno, 0, access=ACCESS_READ)\<close> maps the whole file, and raises
  \<^verbatim>\<open>ValueError\<close> ("cannot mmap an empty file") when the file has no bytes.
\<close>

definition mmap_mmap :: "byte list \<Rightarrow> py_error + pyval" where
  "mmap_mmap contents = (if contents = [] then Inl ValueError else Inr (Bytes contents))"

text \<open>
  \<^verbatim>\<open>mmap_file\<close>: the \<^verbatim>\<open>with\<close> block closes the file object on both ways out, the
  return and the error; the mapping it returns stays open.
\<close>

definition mmap_file :: "'row ext \<Rightarrow> path \<Rightarrow> (py_error + pyval) \<times> 'row event list" where
  "mmap_file x file_path =
     (case open_rb x file_path of
        Inl e \<Rightarrow> (Inl e, [])
      | Inr contents \<Rightarrow>
         (case mmap_mmap contents of
            Inl e \<Rightarrow> (Inl e, [FileOpened file_path, FileClosed file_path])
          | Inr mm \<Rightarrow> (Inr mm, [FileOpened file_path, MmapCreated file_path, FileClosed file_path])))"

text \<open>
  The loop of \<^verbatim>\<open>process_file\<close> over the frames: each frame is decoded and its rows are
  appended; an error of the decoder, or the error that ended the extraction, propagates.
\<close>

fun collect_rows ::
  "'row ext \<Rightarrow> (pyval \<times> pyval) list \<Rightarrow> py_error option \<Rightarrow> 'row list \<Rightarrow> py_error + 'row list" where
  "collect_rows x [] None all_rows = Inr all_rows"
| "collect_rows x [] (Some e) all_rows = Inl e"
| "collect_rows x ((vid, frame) # fs) r all_rows =
     (case decode_frame x vid frame of
        Inl e \<Rightarrow> Inl e
      | Inr rows \<Rightarrow> collect_rows x fs r (all_rows @ rows))"

text \<open>
  \<^verbatim>\<open>process_file\<close>. Nothing catches an error, so each error leaves the function where
  it is raised; the two release calls stand after the write.
\<close>

definition process_file ::
  "'row ext \<Rightarrow> path \<Rightarrow> path \<Rightarrow> path \<Rightarrow> (py_error + path) \<times> 'row event list" where
  "process_file x input_dir output_dir file_path =
     (case mmap_file x file_path of
        (Inl e, ev) \<Rightarrow> (Inl e, ev)
      | (Inr mm_view, ev) \<Rightarrow>
         (case extract_frames (gzip_decompress x) mm_view of (frames, r) \<Rightarrow>
          (case collect_rows x frames r [] of
             Inl e \<Rightarrow> (Inl e, ev)
           | Inr all_rows \<Rightarrow>
              (case relative_to file_path input_dir of
                 Inl e \<Rightarrow> (Inl e, ev)
               | Inr relative_path \<Rightarrow>
                  (case mkdir_parents x (butlast (output_dir @ relative_path)) of
                     Some e \<Rightarrow> (Inl e, ev)
                   | None \<Rightarrow>
                      (case with_suffix (output_dir @ relative_path) ''.parquet'' of
                         Inl e \<Rightarrow> (Inl e, ev @ [DirsMade (butlast (output_dir @ relative_path))])
                       | Inr out_file \<Rightarrow>
                          (case write_parquet x out_file all_rows of
                             Some e \<Rightarrow>
                               (Inl e, ev @ [DirsMade (butlast (output_dir @ relative_path))])
                           | None \<Rightarrow>
                               (Inr out_file,
                                ev @ [DirsMade (butlast (output_dir @ relative_path)),
                                      ParquetWritten out_file all_rows,
                                      ViewReleased file_path,
                                      MmapClosed file_path]))))))))"

section \<open>The directory run\<close>

text \<open>
  What the coordinating process shows: the message for an empty directory, the progress bar
  and the line printed for each file.
\<close>

datatype report =
    NoFilesFound
  | PbarCreated nat
  | PbarUpdate nat
  | PrintDone path path
  | PrintFailed path py_error
  | PbarClosed

text \<open>
  The loop over \<^verbatim>\<open>as_completed\<close>: \<^verbatim>\<open>future.result()\<close> returns the output path of
  the file or raises the error of its worker; the handler \<^verbatim>\<open>except Exception\<close> catches
  the error and prints it.
\<close>

fun report_results :: "(path \<Rightarrow> py_error + path) \<Rightarrow> path list \<Rightarrow> report list" where
  "report_results result [] = []"
| "report_results result (f # fs) =
     (case result f of
        Inr out_file \<Rightarrow> [PbarUpdate 1, PrintDone f out_file]
      | Inl e \<Rightarrow> [PrintFailed f e])
     @ report_results result fs"

text \<open>
  \<^verbatim>\<open>process_directory\<close>, given the files the search found and the order in which their
  futures complete. Every file is submitted before the first result is read.
\<close>

definition process_directory ::
  "'row ext \<Rightarrow> path \<Rightarrow> path \<Rightarrow> path list \<Rightarrow> path list \<Rightarrow> report list" where
  "process_directory x input_dir output_dir files completed =
     (if files = [] then [NoFilesFound] else [])
     @ [PbarCreated (length files)]
     @ report_results (\<lambda>f. fst (process_file x input_dir output_dir f)) completed
     @ [PbarClosed]"

text \<open>How far the progress bar has moved.\<close>

fun progress :: "report list \<Rightarrow> nat" where
  "progress [] = 0"
| "progress (PbarUpdate n # rs) = n + progress rs"
| "progress (r # rs) = progress rs"



section \<open>The framing table\<close>

text \<open>
  The three decoders of plain framed spans, with the header size and the length field each
  one is said to use: 16 bytes with 2 bytes at offset 14, 8 bytes with 4 bytes at offset 4,
  4 bytes with 2 bytes at offset 2.
\<close>

datatype framed_layer = L2 | L3 | L4

fun header_size :: "framed_layer \<Rightarrow> nat" where
  "header_size L2 = 16"
| "header_size L3 = 8"
| "header_size L4 = 4"

fun length_offset :: "framed_layer \<Rightarrow> nat" where
  "length_offset L2 = 14"
| "length_offset L3 = 4"
| "length_offset L4 = 2"

fun length_width :: "framed_layer \<Rightarrow> nat" where
  "length_width L2 = 2"
| "length_width L3 = 4"
| "length_width L4 = 2"

fun layer_step :: "framed_layer \<Rightarrow> pyval \<Rightarrow> nat \<Rightarrow> pyval gen_step" where
  "layer_step L2 = parse_layer2_step"
| "layer_step L3 = parse_layer3_step"
| "layer_step L4 = parse_layer4_step"

fun layer_from :: "framed_layer \<Rightarrow> pyval \<Rightarrow> nat \<Rightarrow> pyval gen_run" where
  "layer_from L2 = parse_layer2_from"
| "layer_from L3 = parse_layer3_from"
| "layer_from L4 = parse_layer4_from"

text \<open>The length a record at an offset of a span declares, read as the table says.\<close>

definition declared_length :: "framed_layer \<Rightarrow> byte list \<Rightarrow> nat \<Rightarrow> nat" where
  "declared_length l d off =
     be_uint (slice d (off + length_offset l) (off + length_offset l + length_width l))"

section \<open>A sample file\<close>

text \<open>
  One L1 record: the source identifier \<^verbatim>\<open>VEH000000000000001\<close>, thirteen zero bytes, the
  length 34 and the 34 bytes \<^verbatim>\<open>gzip.compress\<close> produces for a span of 32 bytes. The span
  is one L2 record (length 16) holding one L3 record (length 8) holding one L4 record
  (length 4) whose frame is \<^verbatim>\<open>DE AD BE EF\<close>.
\<close>

definition example_vid :: "byte list" where
  "example_vid = [86, 69, 72, 48, 48, 48, 48, 48, 48, 48, 48, 48, 48, 48, 48, 48, 48, 49]"

definition example_payload :: "byte list" where
  "example_payload =
     [0, 0, 0, 0, 0, 0, 0, 0, 0, 0, 0, 0, 0, 0, 0, 16,
      0, 0, 0, 0, 0, 0, 0, 8,
      0, 0, 0, 4,
      222, 173, 190, 239]"

definition example_comp :: "byte list" where
  "example_comp =
     [31, 139, 8, 0, 0, 0, 0, 0, 2, 3, 99, 96, 64, 1, 2, 80, 154, 3, 136, 89, 238, 173, 221,
      247, 30, 0, 78, 180, 219, 29, 32, 0, 0, 0]"

definition example_file :: "byte list" where
  "example_file =
     example_vid @ [0, 0, 0, 0, 0, 0, 0, 0, 0, 0, 0, 0, 0] @ [0, 0, 0, 34] @ example_comp"

text \<open>\<^verbatim>\<open>gzip.decompress\<close> at the sample's compressed bytes; other inputs are not gzip data.\<close>

definition example_gunzip :: "byte list \<Rightarrow> py_error + byte list" where
  "example_gunzip bs = (if bs = example_comp then Inr example_payload else Inl BadGzipFile)"

text \<open>
  A directory \<^verbatim>\<open>in\<close> with the sample file, a file of no bytes and a file of one byte; a
  decoder that returns one row for each frame; directories and output files that can always
  be created.
\<close>

definition example_ext :: "(pyval \<times> pyval) ext" where
  "example_ext =
     \<lparr> open_rb = (\<lambda>p. if p = [''in'', ''a.bin''] then Inr example_file
                       else if p = [''in'', ''empty.bin''] then Inr []
                       else if p = [''in'', ''tiny.bin''] then Inr [7]
                       else Inl OSError),
       gzip_decompress = example_gunzip,
       decode_frame = (\<lambda>vid frame. Inr [(vid, frame)]),
       mkdir_parents = (\<lambda>p. None),
       write_parquet = (\<lambda>p rows. None) \<rparr>"

section \<open>Facts about the Python primitives\<close>

lemma py_encode_ascii_raises: "py_encode_ascii v = Inl AttributeError"
  by (cases v) simp_all

lemma py_len_slice: "i + n \<le> py_len v \<Longrightarrow> py_len (py_slice v i (i + n)) = n"
  by (cases v) (simp_all add: slice_def)

lemma length_slice: "j \<le> length xs \<Longrightarrow> length (slice xs i j) = j - i"
  by (simp add: slice_def)

lemma slice_slice:
  "i + b \<le> j \<Longrightarrow> j \<le> length xs \<Longrightarrow> slice (slice xs i j) a b = slice xs (i + a) (i + b)"
  by (simp add: slice_def take_drop min_def add.commute)

lemma slice_beyond: "length xs \<le> j \<Longrightarrow> slice xs i j = drop i xs"
  by (simp add: slice_def)

lemma fst_gen_cons: "fst (gen_cons x g) = x # fst g"
  by (cases g) simp

lemma snd_gen_cons: "snd (gen_cons x g) = snd g"
  by (cases g) simp

section \<open>Layer 1 never yields\<close>

text \<open>
  As soon as a whole header of 35 bytes is there, the first statement after the header check
  asks a buffer for \<^verbatim>\<open>encode\<close>, and the generator ends with \<^verbatim>\<open>AttributeError\<close>
  before it has yielded anything.
\<close>

lemma parse_layer1_step_eq:
  "parse_layer1_step gz v off = (if off + 35 \<le> py_len v then Raise AttributeError else Stop)"
  by (simp add: parse_layer1_step_def Let_def py_encode_ascii_raises py_len_slice)

lemma parse_layer1_from_eq:
  "parse_layer1_from gz v off = ([], if off + 35 \<le> py_len v then Some AttributeError else None)"
  by (subst parse_layer1_from.simps) (simp add: parse_layer1_step_eq)

lemma parse_layer1_eq:
  "parse_layer1 gz v = ([], if 35 \<le> py_len v then Some AttributeError else None)"
  by (simp add: parse_layer1_def parse_layer1_from_eq)

lemma extract_frames_eq:
  "extract_frames gz v = ([], if 35 \<le> py_len v then Some AttributeError else None)"
  by (simp add: extract_frames_def parse_layer1_eq)

section \<open>Layers 2 to 4 on a byte span\<close>

lemma layer_step_bytes:
  "layer_step l (Bytes d) off =
     (if off + header_size l \<le> length d
      then Yield (Tuple [Bytes (slice d off (off + header_size l)),
                         Bytes (slice d (off + header_size l)
                                  (off + header_size l + declared_length l d off))])
                 (off + header_size l + declared_length l d off)
      else Stop)"
  by (cases l)
     (simp_all add: parse_layer2_step_def parse_layer3_step_def parse_layer4_step_def Let_def
        declared_length_def length_slice slice_slice add.commute
        del: add_2_eq_Suc add_2_eq_Suc')

lemma layer_from_unfold:
  "layer_from l v off =
     (case layer_step l v off of
        Stop \<Rightarrow> ([], None)
      | Raise e \<Rightarrow> ([], Some e)
      | Yield r off' \<Rightarrow> gen_cons r (layer_from l v off'))"
proof (cases l)
  case L2
  show ?thesis unfolding L2
    by (simp add: parse_layer2_from.simps [of v off] split: gen_step.split)
next
  case L3
  show ?thesis unfolding L3
    by (simp add: parse_layer3_from.simps [of v off] split: gen_step.split)
next
  case L4
  show ?thesis unfolding L4
    by (simp add: parse_layer4_from.simps [of v off] split: gen_step.split)
qed

lemma layer_step_advance:
  "layer_step l v off = Yield r off' \<Longrightarrow>
     off + header_size l \<le> off' \<and> off + header_size l \<le> py_len v"
  by (cases l)
     (auto dest: parse_layer2_step_advance parse_layer3_step_advance parse_layer4_step_advance)

lemma header_size_pos: "0 < header_size l"
  by (cases l) simp_all

lemma layer_from_count:
  "length (fst (layer_from l v off)) \<le> (py_len v - off) div header_size l"
proof (induction "py_len v - off" arbitrary: off rule: less_induct)
  case less
  show ?case
  proof (cases "layer_step l v off")
    case (Yield r off')
    from layer_step_advance [OF Yield]
    have adv: "off + header_size l \<le> off'" and room: "off + header_size l \<le> py_len v"
      by simp_all
    have pos: "0 < header_size l" by (rule header_size_pos)
    from adv room pos have "py_len v - off' < py_len v - off" by arith
    then have ih: "length (fst (layer_from l v off')) \<le> (py_len v - off') div header_size l"
      by (rule less)
    from adv
    have "(py_len v - off') div header_size l \<le> (py_len v - off - header_size l) div header_size l"
      by (intro div_le_mono) arith
    moreover from room pos
    have "(py_len v - off) div header_size l =
          Suc ((py_len v - off - header_size l) div header_size l)"
      by (intro le_div_geq) arith+
    ultimately show ?thesis
      using ih Yield by (simp add: layer_from_unfold [of l v off] fst_gen_cons)
  next
    case Stop
    then show ?thesis by (simp add: layer_from_unfold [of l v off])
  next
    case (Raise e)
    then show ?thesis by (simp add: layer_from_unfold [of l v off])
  qed
qed

text \<open>On a byte span a decoder of layers 2 to 4 never raises, and every item is a pair.\<close>

lemma layer_from_bytes_items:
  "snd (layer_from l (Bytes d) off) = None
   \<and> (\<forall>r \<in> set (fst (layer_from l (Bytes d) off)). \<exists>h p. r = Tuple [h, p])"
proof (induction "length d - off" arbitrary: off rule: less_induct)
  case less
  show ?case
  proof (cases "off + header_size l \<le> length d")
    case True
    let ?off' = "off + header_size l + declared_length l d off"
    from True header_size_pos [of l] have "length d - ?off' < length d - off" by arith
    then have "snd (layer_from l (Bytes d) ?off') = None
      \<and> (\<forall>r \<in> set (fst (layer_from l (Bytes d) ?off')). \<exists>h p. r = Tuple [h, p])"
      by (rule less)
    with True show ?thesis
      by (simp add: layer_from_unfold [of l "Bytes d" off] layer_step_bytes fst_gen_cons
            snd_gen_cons)
  next
    case False
    then show ?thesis
      by (simp add: layer_from_unfold [of l "Bytes d" off] layer_step_bytes)
  qed
qed

section \<open>The loops of the frame extractor\<close>

text \<open>
  A pair has length 2, which is less than the 8 bytes \<^verbatim>\<open>parse_layer3\<close> asks for, so
  handed a pair it returns at once.
\<close>

lemma parse_layer3_pair: "parse_layer3 (Tuple [h, p]) = ([], None)"
  by (simp add: parse_layer3_def parse_layer3_from.simps [of "Tuple [h, p]" 0]
        parse_layer3_step_def)

lemma gen_for_nothing:
  "\<forall>x \<in> set xs. body x = ([], None) \<Longrightarrow> gen_for xs r body = ([], r)"
  by (induction xs) simp_all

text \<open>Whatever the decompressed payload, the three inner loops yield no frame.\<close>

lemma frames_of_segment_bytes: "frames_of_segment vid (Bytes d) = ([], None)"
proof -
  obtain rs where run: "parse_layer2 (Bytes d) = (rs, None)"
    and items: "\<forall>r \<in> set rs. \<exists>h p. r = Tuple [h, p]"
    using layer_from_bytes_items [of L2 d 0]
    by (cases "parse_layer2 (Bytes d)") (auto simp: parse_layer2_def)
  have "\<forall>r \<in> set rs.
          for_each (parse_layer3 r) (\<lambda>frame_seq.
            for_each (parse_layer3 frame_seq) (\<lambda>frame. ([(vid, frame)], None))) = ([], None)"
    using items by (auto simp: parse_layer3_pair)
  then show ?thesis
    by (simp add: frames_of_segment_def run gen_for_nothing)
qed

section \<open>The file processor and the directory run\<close>

lemma process_file_mapping_closed_only_on_success:
  "length (filter (\<lambda>e. e = MmapClosed file_path)
             (snd (process_file x input_dir output_dir file_path))) =
     (if isl (fst (process_file x input_dir output_dir file_path)) then 0 else 1)"
  by (auto simp: process_file_def mmap_file_def mmap_mmap_def
           split: sum.splits option.splits prod.splits)


lemma progress_append: "progress (rs @ rs') = progress rs + progress rs'"
  by (induction rs rule: progress.induct) simp_all

lemma progress_report_results:
  "progress (report_results result fs) = length (filter (\<lambda>f. \<not> isl (result f)) fs)"
  by (induction fs) (auto simp: progress_append split: sum.splits)

text \<open>The bar moves once for each file that succeeded, and for no other.\<close>

lemma progress_process_directory:
  "progress (process_directory x input_dir output_dir files completed) =
     length (filter (\<lambda>f. \<not> isl (fst (process_file x input_dir output_dir f))) completed)"
  by (simp add: process_directory_def progress_append progress_report_results)

subsection \<open>The sample directory\<close>

lemma process_file_sample:
  "process_file example_ext [''in''] [''out''] [''in'', ''a.bin''] =
     (Inl AttributeError,
      [FileOpened [''in'', ''a.bin''], MmapCreated [''in'', ''a.bin''],
       FileClosed [''in'', ''a.bin'']])"
  by (simp add: process_file_def mmap_file_def mmap_mmap_def example_ext_def extract_frames_eq
        example_file_def example_vid_def example_comp_def)



section \<open>Properties of the decoders, the processor and the directory run\<close>

text \<open>
  C1. The frame extractor is said to yield, for every mapped buffer, what the four layer
  decoders give when composed in order: for each L1 record, each L2 record of its
  decompressed payload, each L3 record of that payload and each L4 record of that payload,
  the pair of the source identifier and the L4 payload. On the sample file that composition
  is the single pair of \<^verbatim>\<open>VEH000000000000001\<close> and the frame \<^verbatim>\<open>DE AD BE EF\<close>, while
  \<^verbatim>\<open>extract_frames\<close> yields nothing and ends with \<^verbatim>\<open>AttributeError\<close>.
\<close>

theorem extract_frames_sample_diverges:
  "extract_frames example_gunzip (Bytes example_file) = ([], Some AttributeError)
   \<and> spec_extract_frames example_gunzip example_file =
       ([(example_vid, [222, 173, 190, 239])], None)"
proof
  show "extract_frames example_gunzip (Bytes example_file) = ([], Some AttributeError)"
    by (simp add: extract_frames_eq example_file_def example_vid_def example_comp_def)
  show "spec_extract_frames example_gunzip example_file =
          ([(example_vid, [222, 173, 190, 239])], None)"
    by code_simp
qed

text \<open>
  C2. A decoder given a span whose last record declares more payload than remains is said
  to stop before that record. On a span of 18 bytes whose L2 header declares 5 bytes with
  2 bytes left, \<^verbatim>\<open>parse_layer2\<close> yields the record with a payload of 2 bytes.
\<close>

theorem parse_layer2_short_payload_counterexample:
  "parse_layer2 (Bytes (replicate 15 0 @ [5, 1, 2])) =
     ([Tuple [Bytes (replicate 15 0 @ [5]), Bytes [1, 2]]], None)
   \<and> declared_length L2 (replicate 15 0 @ [5, 1, 2]) 0 = 5"
  by code_simp

text \<open>
  C2, as the code has it: on a byte span, when the header of a record of layer 2, 3 or 4 is
  whole and the length it declares exceeds the bytes that remain after it, the decoder
  raises nothing, yields that record with all the remaining bytes as its payload, fewer
  than declared, and yields nothing after it.
\<close>

theorem framed_truncated_payload_clipped:
  assumes "off + header_size l \<le> length d"
      and "length d < off + header_size l + declared_length l d off"
  shows "layer_from l (Bytes d) off =
           ([Tuple [Bytes (slice d off (off + header_size l)),
                    Bytes (drop (off + header_size l) d)]], None)
         \<and> length (drop (off + header_size l) d) < declared_length l d off"
proof -
  let ?hs = "header_size l" and ?n = "declared_length l d off"
  have "layer_step l (Bytes d) (off + ?hs + ?n) = Stop"
    using assms(2) by (simp add: layer_step_bytes)
  then have rest: "layer_from l (Bytes d) (off + ?hs + ?n) = ([], None)"
    by (simp add: layer_from_unfold [of l "Bytes d" "off + ?hs + ?n"])
  have "slice d (off + ?hs) (off + ?hs + ?n) = drop (off + ?hs) d"
    using assms(2) by (simp add: slice_beyond)
  then show ?thesis
    using assms rest by (simp add: layer_from_unfold [of l "Bytes d" off] layer_step_bytes)
qed

theorem framed_truncated_payload_clipped_witness:
  "0 + header_size L3 \<le> length [0, 0, 0, 0, 0, 0, 0, 9, 1, 2, 3 :: byte]
   \<and> length [0, 0, 0, 0, 0, 0, 0, 9, 1, 2, 3 :: byte]
       < 0 + header_size L3 + declared_length L3 [0, 0, 0, 0, 0, 0, 0, 9, 1, 2, 3] 0
   \<and> parse_layer3_from (Bytes [0, 0, 0, 0, 0, 0, 0, 9, 1, 2, 3]) 0 =
       ([Tuple [Bytes [0, 0, 0, 0, 0, 0, 0, 9], Bytes [1, 2, 3]]], None)"
proof -
  let ?d = "[0, 0, 0, 0, 0, 0, 0, 9, 1, 2, 3] :: byte list"
  have whole: "0 + header_size L3 \<le> length ?d"
    by simp
  have short: "length ?d < 0 + header_size L3 + declared_length L3 ?d 0"
    by (simp add: declared_length_def slice_def be_uint_def)
  from framed_truncated_payload_clipped [OF whole short] whole short
  show ?thesis by (simp add: slice_def)
qed

text \<open>
  Layers 2 to 4 on a byte span decode every record whose declared payload fits in the span:
  the pass at the record's offset yields the pair of the header (the 16, 8 or 4 bytes at
  the offset) and the payload; the length of the payload is the big-endian integer in the
  header's length field (2 bytes at 14, 4 bytes at 4, 2 bytes at 2); the payload is the
  bytes that follow the header; and the decoder goes on at the record's offset plus the
  header size plus that length.
\<close>

lemma framed_record_decoded:
  assumes "off + header_size l + declared_length l d off \<le> length d"
  shows "\<exists>h p. layer_step l (Bytes d) off =
                 Yield (Tuple [Bytes h, Bytes p]) (off + header_size l + length p)
            \<and> h = slice d off (off + header_size l)
            \<and> length h = header_size l
            \<and> length p = be_uint (slice h (length_offset l) (length_offset l + length_width l))
            \<and> p = slice d (off + header_size l) (off + header_size l + length p)
            \<and> layer_from l (Bytes d) off =
                gen_cons (Tuple [Bytes h, Bytes p])
                  (layer_from l (Bytes d) (off + header_size l + length p))"
proof -
  let ?hs = "header_size l" and ?n = "declared_length l d off"
  let ?h = "slice d off (off + ?hs)" and ?p = "slice d (off + ?hs) (off + ?hs + ?n)"
  from assms have room: "off + ?hs \<le> length d" by arith
  have len_p: "length ?p = ?n"
    using assms by (simp add: length_slice)
  have step: "layer_step l (Bytes d) off = Yield (Tuple [Bytes ?h, Bytes ?p]) (off + ?hs + ?n)"
    using room by (simp add: layer_step_bytes)
  have "length_offset l + length_width l \<le> ?hs" by (cases l) simp_all
  then have field:
    "be_uint (slice ?h (length_offset l) (length_offset l + length_width l)) = ?n"
    using room by (simp add: slice_slice declared_length_def add.assoc)
  have len_h: "length ?h = ?hs"
    using room by (simp add: length_slice)
  have unf: "layer_from l (Bytes d) off =
               gen_cons (Tuple [Bytes ?h, Bytes ?p]) (layer_from l (Bytes d) (off + ?hs + ?n))"
    using step by (simp add: layer_from_unfold [of l "Bytes d" off])
  show ?thesis
    using step len_p field len_h unf by (intro exI [of _ ?h] exI [of _ ?p]) simp
qed

lemma framed_record_decoded_sample:
  "parse_layer2 (Bytes example_payload) =
     ([Tuple [Bytes (take 16 example_payload), Bytes (drop 16 example_payload)]], None)
   \<and> parse_layer3 (Bytes (drop 16 example_payload)) =
       ([Tuple [Bytes (take 8 (drop 16 example_payload)), Bytes (drop 24 example_payload)]], None)
   \<and> parse_layer4 (Bytes (drop 24 example_payload)) =
       ([Tuple [Bytes (take 4 (drop 24 example_payload)), Bytes [222, 173, 190, 239]]], None)"
  by code_simp


text \<open>
  C4. The L1 decoder is said to yield, for a buffer with a whole L1 record, the first 18
  bytes of the header as the source identifier. On the sample file, which holds one whole
  record, \<^verbatim>\<open>parse_layer1\<close> yields nothing and ends with \<^verbatim>\<open>AttributeError\<close>.
\<close>

theorem parse_layer1_sample_raises:
  "parse_layer1 example_gunzip (Bytes example_file) = ([], Some AttributeError)"
  by (simp add: parse_layer1_eq example_file_def example_vid_def example_comp_def)

text \<open>
  C5. The mapping of a file is said to be released once on every way out of the file
  processor. For the sample file the processor ends with an error after the mapping was
  made, and neither \<^verbatim>\<open>mm_view.release()\<close> nor \<^verbatim>\<open>mm.close()\<close> has run; only the file
  object opened inside \<^verbatim>\<open>mmap_file\<close> was closed.
\<close>

theorem process_file_sample_leaves_mapping_open:
  "process_file example_ext [''in''] [''out''] [''in'', ''a.bin''] =
     (Inl AttributeError,
      [FileOpened [''in'', ''a.bin''], MmapCreated [''in'', ''a.bin''],
       FileClosed [''in'', ''a.bin'']])
   \<and> MmapClosed [''in'', ''a.bin'']
       \<notin> set (snd (process_file example_ext [''in''] [''out''] [''in'', ''a.bin'']))"
  by (simp add: process_file_sample)

text \<open>
  C6. Opening a file of no bytes is said to give an empty buffer. \<^verbatim>\<open>mmap_file\<close> on the
  empty file of the sample directory ends with \<^verbatim>\<open>ValueError\<close>.
\<close>

theorem mmap_file_empty_counterexample:
  "open_rb example_ext [''in'', ''empty.bin''] = Inr []
   \<and> fst (mmap_file example_ext [''in'', ''empty.bin'']) = Inl ValueError"
  by (simp add: mmap_file_def mmap_mmap_def example_ext_def)

text \<open>
  C6, as the code has it: opening a file of no bytes as a mapped buffer raises
  \<^verbatim>\<open>ValueError\<close> and gives no buffer; the file object is closed on the way out.
\<close>

theorem mmap_file_empty_raises:
  "open_rb x p = Inr [] \<Longrightarrow> mmap_file x p = (Inl ValueError, [FileOpened p, FileClosed p])"
  by (simp add: mmap_file_def mmap_mmap_def)

theorem mmap_file_empty_raises_witness:
  "open_rb example_ext [''in'', ''empty.bin''] = Inr []
   \<and> mmap_file example_ext [''in'', ''empty.bin''] =
       (Inl ValueError, [FileOpened [''in'', ''empty.bin''], FileClosed [''in'', ''empty.bin'']])"
proof -
  have empty: "open_rb example_ext [''in'', ''empty.bin''] = Inr []"
    by (simp add: example_ext_def)
  from mmap_file_empty_raises [OF empty] empty show ?thesis by simp
qed



text \<open>
  C8. The progress bar is said to move once for each completed file, failed or not. In a
  run over the sample file alone, the one file completes with an error, its failure is
  printed, and the bar is closed without having moved.
\<close>

theorem process_directory_failed_file_no_progress:
  "process_directory example_ext [''in''] [''out''] [[''in'', ''a.bin'']] [[''in'', ''a.bin'']] =
     [PbarCreated 1, PrintFailed [''in'', ''a.bin''] AttributeError, PbarClosed]
   \<and> progress (process_directory example_ext [''in''] [''out'']
                  [[''in'', ''a.bin'']] [[''in'', ''a.bin'']]) = 0"
  by (simp add: process_directory_def process_file_sample)

text \<open>
  C9. Each of the four decoders is a total function: its loop is defined by recursion on
  the offset, with the distance to the end of the input as the measure that shrinks. A pass
  of a decoder of layer 2, 3 or 4 that yields a record moves the offset forward by at least
  the header size, which is positive, and from any offset a decoder yields at most as many
  records as headers fit in the rest of its input, for every input value. The same bound
  holds for layer 1 with its 35 bytes.
\<close>

theorem layer_decoders_terminate:
  "(layer_step l v off = Yield r off' \<longrightarrow> off + header_size l \<le> off' \<and> 0 < header_size l)
   \<and> length (fst (layer_from l v off)) \<le> (py_len v - off) div header_size l
   \<and> length (fst (parse_layer1_from gz v off)) \<le> (py_len v - off) div 35"
  using layer_step_advance [of l v off r off'] header_size_pos [of l]
    layer_from_count [of l v off]
  by (simp add: parse_layer1_from_eq)

theorem layer_decoders_terminate_witness:
  "layer_step L2 (Bytes example_payload) 0 =
     Yield (Tuple [Bytes (take 16 example_payload), Bytes (drop 16 example_payload)]) 32
   \<and> 0 + header_size L2 \<le> 32
   \<and> length (fst (layer_from L2 (Bytes example_payload) 0))
       \<le> (py_len (Bytes example_payload) - 0) div header_size L2
   \<and> length (fst (parse_layer1_from example_gunzip (Bytes example_payload) 0))
       \<le> (py_len (Bytes example_payload) - 0) div 35"
proof -
  have yields: "layer_step L2 (Bytes example_payload) 0 =
      Yield (Tuple [Bytes (take 16 example_payload), Bytes (drop 16 example_payload)]) 32"
    by code_simp
  from layer_decoders_terminate
         [of L2 "Bytes example_payload" 0
             "Tuple [Bytes (take 16 example_payload), Bytes (drop 16 example_payload)]" 32
             example_gunzip]
       yields
  show ?thesis by blast
qed




end
